theory Spec2Isabelle
  imports Main
begin

section \<open>Contacts and messages\<close>

text \<open>
  A contact is the dictionary that the XML decoder hands to the handler. Every value is a
  string or Python's \<open>None\<close>. Only \<open>timestamp\<close> and \<open>call\<close> are read by name in the
  handler; the other eleven columns (contestname, band, rxfreq, txfreq, countryprefix,
  operator, mode, snt, rcv, comment, continent) travel together, in that order.
\<close>

record contact =
  timestamp :: "string option"
  call :: "string option"
  details :: "string option list"

text \<open>
  The decoded message: the name of its root element and the dictionary below it
  (\<open>msg.keys()\<close> holds exactly the root element).
\<close>

record message =
  msg_root :: string
  body :: contact

text \<open>Python's \<open>str\<close> on the values that are printed.\<close>

fun str_nat :: "nat \<Rightarrow> string" where
  "str_nat n =
     (if n < 10 then [char_of (48 + n)]
      else str_nat (n div 10) @ [char_of (48 + n mod 10)])"

declare str_nat.simps [simp del]

definition str_field :: "string option \<Rightarrow> string" where
  "str_field v = (case v of None \<Rightarrow> ''None'' | Some s \<Rightarrow> s)"

definition str_id :: "nat option \<Rightarrow> string" where
  "str_id v = (case v of None \<Rightarrow> ''None'' | Some n \<Rightarrow> str_nat n)"

definition contact_to_short_string :: "contact \<Rightarrow> string" where
  "contact_to_short_string c = str_field (timestamp c) @ '' '' @ str_field (call c)"

text \<open>\<open>print(a, b, ...)\<close> writes its arguments separated by one space.\<close>

fun print_args :: "string list \<Rightarrow> string" where
  "print_args [] = []"
| "print_args [a] = a"
| "print_args (a # b # rest) = a @ '' '' @ print_args (b # rest)"

section \<open>The QSO database\<close>

text \<open>
  Modelled from the spec: the schema file \<open>qso_database.sql\<close> (the table \<open>qsos_raw\<close>, the
  views \<open>qsos\<close> and \<open>deleted_qsos\<close>, and the rewriting of INSERT, UPDATE and DELETE on the
  view \<open>qsos\<close> into appended rows of \<open>qsos_raw\<close>) is not among the sources. The table is the
  append-only history of versions; rows are kept in the order in which they were
  appended, which stands for the column \<open>modified\<close>, so that the row with the greatest
  \<open>modified\<close> of a key is the last row of that key. The key counter stands for the serial
  column \<open>qsoid\<close>.
\<close>

record raw_row =
  qsoid :: nat
  content :: contact

record database =
  qsos_raw :: "raw_row list"
  next_qsoid :: nat

text \<open>
  Modelled from the spec: a version whose payload columns are all NULL is a tombstone; it
  is the row that a DELETE on the view appends.
\<close>

definition null_contact :: contact where
  "null_contact = \<lparr>timestamp = None, call = None, details = replicate 11 None\<rparr>"

definition is_null :: "contact \<Rightarrow> bool" where
  "is_null c = (timestamp c = None \<and> call c = None \<and> list_all (\<lambda>v. v = None) (details c))"

text \<open>The rows carrying the greatest \<open>modified\<close> of their key: no later row has the key.\<close>

fun latest_rows :: "raw_row list \<Rightarrow> raw_row list" where
  "latest_rows [] = []"
| "latest_rows (r # rs) =
     (if qsoid r \<in> set (map qsoid rs) then latest_rows rs else r # latest_rows rs)"

text \<open>
  Modelled from the spec: the view \<open>qsos\<close> is the Current View, the most recent version of
  every key whose most recent version is not a tombstone; the view \<open>deleted_qsos\<close> holds
  the keys whose most recent version is a tombstone.
\<close>

definition qsos :: "database \<Rightarrow> raw_row list" where
  "qsos db = filter (\<lambda>r. \<not> is_null (content r)) (latest_rows (qsos_raw db))"

definition deleted_qsos :: "database \<Rightarrow> raw_row list" where
  "deleted_qsos db = filter (\<lambda>r. is_null (content r)) (latest_rows (qsos_raw db))"

text \<open>
  The condition \<open>qsoid = %s\<close> of the statements. The parameter may be Python's \<open>None\<close>,
  which is sent as NULL; a comparison with NULL selects no row.
\<close>

definition qsoid_is :: "nat option \<Rightarrow> raw_row \<Rightarrow> bool" where
  "qsoid_is k r = (k = Some (qsoid r))"

text \<open>
  \<open>insert_qso\<close>: INSERT on the view. Modelled from the spec: a new key is allocated and
  the first version is appended.
\<close>

definition insert_qso :: "contact \<Rightarrow> database \<Rightarrow> database" where
  "insert_qso contactinfo db =
     db\<lparr>qsos_raw := qsos_raw db @ [\<lparr>qsoid = next_qsoid db, content = contactinfo\<rparr>],
        next_qsoid := Suc (next_qsoid db)\<rparr>"

text \<open>
  \<open>update_qso\<close>: \<open>UPDATE qsos SET ... WHERE qsoid = %(qsoid)s\<close>. The statement ranges over
  the rows of the view; for each selected row a version with the new column values is
  appended under the row's key. The assignment \<open>contactinfo['qsoid'] = qso_id\<close> before it
  only supplies the parameter of the WHERE clause.
\<close>

definition update_qso :: "nat option \<Rightarrow> contact \<Rightarrow> database \<Rightarrow> database" where
  "update_qso qso_id contactinfo db =
     db\<lparr>qsos_raw := qsos_raw db @
        map (\<lambda>r. \<lparr>qsoid = qsoid r, content = contactinfo\<rparr>) (filter (qsoid_is qso_id) (qsos db))\<rparr>"

text \<open>
  \<open>delete_qso\<close>: \<open>DELETE FROM qsos WHERE qsoid = %s\<close>. For each selected row of the view
  an all-NULL version is appended under the row's key.
\<close>

definition delete_qso :: "nat option \<Rightarrow> database \<Rightarrow> database" where
  "delete_qso qso_id db =
     db\<lparr>qsos_raw := qsos_raw db @
        map (\<lambda>r. \<lparr>qsoid = qsoid r, content = null_contact\<rparr>) (filter (qsoid_is qso_id) (qsos db))\<rparr>"

text \<open>
  \<open>undo_delete\<close>. The inner query keeps, per key, the greatest \<open>modified\<close> among the rows
  whose \<open>call\<close> and \<open>timestamp\<close> are both not NULL; the join gives that row back, and the
  outer condition keeps the row of the given key. Its columns are appended as a new row.
\<close>

definition has_call_and_timestamp :: "raw_row \<Rightarrow> bool" where
  "has_call_and_timestamp r = (call (content r) \<noteq> None \<and> timestamp (content r) \<noteq> None)"

definition undo_source :: "nat option \<Rightarrow> database \<Rightarrow> raw_row list" where
  "undo_source qso_id db =
     filter (qsoid_is qso_id) (latest_rows (filter has_call_and_timestamp (qsos_raw db)))"

text \<open>\<open>SELECT * FROM deleted_qsos WHERE qsoid = %s\<close> and \<open>fetchone() is not None\<close>.\<close>

definition is_deleted :: "nat option \<Rightarrow> database \<Rightarrow> bool" where
  "is_deleted qso_id db = (filter (qsoid_is qso_id) (deleted_qsos db) \<noteq> [])"

definition undo_delete :: "nat option \<Rightarrow> database \<Rightarrow> database" where
  "undo_delete qso_id db =
     (if is_deleted qso_id db
      then db\<lparr>qsos_raw := qsos_raw db @ undo_source qso_id db\<rparr>
      else db)"

text \<open>
  \<open>get_qso_id\<close>: \<open>SELECT qsoid FROM qsos WHERE timestamp = %s AND call = %s\<close>, then
  \<open>fetchone\<close>. A parameter that is \<open>None\<close> is NULL and matches nothing. Which of several
  matching rows comes first is left open by SQL; the model takes the view in table order.
\<close>

definition matches :: "string option \<Rightarrow> string option \<Rightarrow> raw_row \<Rightarrow> bool" where
  "matches ts cs r =
     (ts \<noteq> None \<and> cs \<noteq> None \<and> timestamp (content r) = ts \<and> call (content r) = cs)"

definition get_qso_id :: "string option \<Rightarrow> string option \<Rightarrow> database \<Rightarrow> nat option" where
  "get_qso_id ts cs db =
     (case filter (matches ts cs) (qsos db) of [] \<Rightarrow> None | r # _ \<Rightarrow> Some (qsoid r))"

text \<open>
  The words of the specification about a key: known (it has a version), present (it has
  a row in the Current View), and the non-tombstone versions in its history.
\<close>

definition is_known :: "nat option \<Rightarrow> database \<Rightarrow> bool" where
  "is_known qso_id db = (filter (qsoid_is qso_id) (qsos_raw db) \<noteq> [])"

definition is_present :: "nat option \<Rightarrow> database \<Rightarrow> bool" where
  "is_present qso_id db = (filter (qsoid_is qso_id) (qsos db) \<noteq> [])"

definition live_versions :: "nat option \<Rightarrow> database \<Rightarrow> raw_row list" where
  "live_versions qso_id db =
     filter (\<lambda>r. \<not> is_null (content r)) (filter (qsoid_is qso_id) (qsos_raw db))"

section \<open>The handler of N1MM messages\<close>

text \<open>
  \<open>last_deleted_contact\<close> is \<open>None\<close> or the dictionary of the last contactdelete message
  with the looked-up \<open>qsoid\<close> stored in it.
\<close>

record deleted_contact =
  dc_contact :: contact
  dc_qsoid :: "nat option"

datatype db_call =
    Insert_qso contact
  | Update_qso "nat option" contact
  | Delete_qso "nat option"
  | Undo_delete "nat option"
  | Get_qso_id "string option" "string option"

datatype exn = TypeError

text \<open>
  The handler object with its three attributes. Two more fields record what a run does
  to the outside: the calls made on \<open>qso_db\<close>, in order, and the lines printed.
\<close>

record n1mm_handler =
  last_deleted_contact :: "deleted_contact option"
  qso_db :: database
  verbose :: bool
  db_calls :: "db_call list"
  stdout :: "string list"

definition n1mm_handler_init :: "database \<Rightarrow> bool \<Rightarrow> n1mm_handler" where
  "n1mm_handler_init db v =
     \<lparr>last_deleted_contact = None, qso_db = db, verbose = v, db_calls = [], stdout = []\<rparr>"

definition call_insert_qso :: "contact \<Rightarrow> n1mm_handler \<Rightarrow> n1mm_handler" where
  "call_insert_qso c h =
     h\<lparr>qso_db := insert_qso c (qso_db h), db_calls := db_calls h @ [Insert_qso c]\<rparr>"

definition call_update_qso :: "nat option \<Rightarrow> contact \<Rightarrow> n1mm_handler \<Rightarrow> n1mm_handler" where
  "call_update_qso k c h =
     h\<lparr>qso_db := update_qso k c (qso_db h), db_calls := db_calls h @ [Update_qso k c]\<rparr>"

definition call_delete_qso :: "nat option \<Rightarrow> n1mm_handler \<Rightarrow> n1mm_handler" where
  "call_delete_qso k h =
     h\<lparr>qso_db := delete_qso k (qso_db h), db_calls := db_calls h @ [Delete_qso k]\<rparr>"

definition call_undo_delete :: "nat option \<Rightarrow> n1mm_handler \<Rightarrow> n1mm_handler" where
  "call_undo_delete k h =
     h\<lparr>qso_db := undo_delete k (qso_db h), db_calls := db_calls h @ [Undo_delete k]\<rparr>"

definition call_get_qso_id ::
  "string option \<Rightarrow> string option \<Rightarrow> n1mm_handler \<Rightarrow> nat option \<times> n1mm_handler" where
  "call_get_qso_id ts cs h =
     (get_qso_id ts cs (qso_db h), h\<lparr>db_calls := db_calls h @ [Get_qso_id ts cs]\<rparr>)"

text \<open>\<open>if self.verbose: print(...)\<close>\<close>

definition say :: "string list \<Rightarrow> n1mm_handler \<Rightarrow> n1mm_handler" where
  "say args h = (if verbose h then h\<lparr>stdout := stdout h @ [print_args args]\<rparr> else h)"

text \<open>The last two statements of the contactreplace branch.\<close>

definition modify_qso :: "nat option \<Rightarrow> contact \<Rightarrow> n1mm_handler \<Rightarrow> n1mm_handler" where
  "modify_qso k c h =
     say [''Replaced '', contact_to_short_string c, ''at qsoid = '', str_id k]
       (call_update_qso k c h)"

text \<open>
  \<open>handle_message\<close> after the XML has been decoded. The result is the exception that
  escaped, if any, and the handler as the call leaves it. Subscripting
  \<open>last_deleted_contact\<close> while it is still \<open>None\<close> raises \<open>TypeError\<close>.
\<close>

definition handle_message :: "message \<Rightarrow> n1mm_handler \<Rightarrow> exn option \<times> n1mm_handler" where
  "handle_message msg h =
     (let contact = body msg in
      if msg_root msg = ''contactinfo'' then
        (None, say [''Inserted '' @ contact_to_short_string contact] (call_insert_qso contact h))
      else if msg_root msg = ''contactdelete'' then
        (let (qso_id, h1) = call_get_qso_id (timestamp contact) (call contact) h;
             h2 = call_delete_qso qso_id h1;
             h3 = say [''Deleted '', contact_to_short_string contact, '' at qsoid = '',
                       str_id qso_id] h2
         in (None, h3\<lparr>last_deleted_contact :=
                        Some \<lparr>dc_contact = contact, dc_qsoid = qso_id\<rparr>\<rparr>))
      else if msg_root msg = ''contactreplace'' then
        (case last_deleted_contact h of
           None \<Rightarrow> (Some TypeError, h)
         | Some d \<Rightarrow>
            (let (found, h1) =
                   (if dc_qsoid d = None
                    then call_get_qso_id (timestamp contact) (call contact) h
                    else (dc_qsoid d, call_undo_delete (dc_qsoid d) h))
             in if found = None then
                  (let (c1, h2) = call_get_qso_id (timestamp contact) (call (dc_contact d)) h1;
                       (c2, h3) = call_get_qso_id (timestamp (dc_contact d)) (call contact) h2;
                       candidates = filter (\<lambda>v. v \<noteq> None) [c1, c2]
                   in if length candidates > 0
                      then (None, modify_qso (candidates ! 0) contact h3)
                      else (None,
                            say [''Gave up, not able to find matching QSO record for contactreplace: '',
                                 contact_to_short_string contact] h3))
                else (None, modify_qso found contact h1)))
      else (None, h))"

section \<open>Example stores and messages\<close>

definition contact_a :: contact where
  "contact_a =
     \<lparr>timestamp = Some ''2019-08-10 13:30:00'', call = Some ''AB1CD'',
      details = [Some ''CQWW'', Some ''14'', Some ''1402500'', Some ''1402500'', Some ''LA'',
                 Some ''LA9SSA'', Some ''CW'', Some ''599'', Some ''599'', None, Some ''EU'']\<rparr>"

definition contact_b :: contact where
  "contact_b =
     \<lparr>timestamp = Some ''2019-08-10 13:45:00'', call = Some ''EF2GH'',
      details = [Some ''CQWW'', Some ''14'', Some ''1402500'', Some ''1402500'', Some ''LA'',
                 Some ''LA9SSA'', Some ''CW'', Some ''599'', Some ''599'', None, Some ''EU'']\<rparr>"

text \<open>The time of the first contact with the call sign of the second.\<close>

definition contact_ab :: contact where
  "contact_ab = contact_a\<lparr>call := Some ''EF2GH''\<rparr>"

text \<open>The time of the second contact with the call sign of the first.\<close>

definition contact_ba :: contact where
  "contact_ba = contact_b\<lparr>call := Some ''AB1CD''\<rparr>"

text \<open>A contact that shares neither field with a stored one.\<close>

definition contact_z :: contact where
  "contact_z = contact_a\<lparr>timestamp := Some ''2019-08-11 09:00:00'', call := Some ''ZZ9ZZ''\<rparr>"

text \<open>The degenerate contactdelete: the epoch as timestamp and no call sign.\<close>

definition contact_epoch :: contact where
  "contact_epoch = null_contact\<lparr>timestamp := Some ''1970-01-01 00:00:00''\<rparr>"

definition two_qsos :: database where
  "two_qsos =
     \<lparr>qsos_raw = [\<lparr>qsoid = 1, content = contact_a\<rparr>, \<lparr>qsoid = 2, content = contact_b\<rparr>],
      next_qsoid = 3\<rparr>"

text \<open>Contact 1 inserted and then deleted.\<close>

definition deleted_qso :: database where
  "deleted_qso =
     \<lparr>qsos_raw = [\<lparr>qsoid = 1, content = contact_a\<rparr>, \<lparr>qsoid = 1, content = null_contact\<rparr>],
      next_qsoid = 2\<rparr>"

text \<open>A key whose whole history is one tombstone.\<close>

definition lone_tombstone :: database where
  "lone_tombstone = \<lparr>qsos_raw = [\<lparr>qsoid = 1, content = null_contact\<rparr>], next_qsoid = 2\<rparr>"

definition handler_after_delete :: "contact \<Rightarrow> nat option \<Rightarrow> database \<Rightarrow> n1mm_handler" where
  "handler_after_delete c k db =
     (n1mm_handler_init db True)\<lparr>last_deleted_contact := Some \<lparr>dc_contact = c, dc_qsoid = k\<rparr>\<rparr>"

section \<open>The views hold at most one row for a key\<close>

lemma qsoid_is_Some: "qsoid_is (Some k) = (\<lambda>r. qsoid r = k)"
  by (auto simp: fun_eq_iff qsoid_is_def)

lemma filter_qsoid_is_None: "filter (qsoid_is None) xs = []"
  by (simp add: qsoid_is_def)

lemma latest_rows_subset: "set (latest_rows xs) \<subseteq> set xs"
  by (induction xs) auto

lemma latest_rows_keys: "set (map qsoid (latest_rows xs)) = set (map qsoid xs)"
  by (induction xs) auto

lemma latest_rows_distinct: "distinct (map qsoid (latest_rows xs))"
proof (induction xs)
  case Nil
  show ?case by simp
next
  case (Cons r rs)
  have "qsoid r \<notin> set (map qsoid rs) \<Longrightarrow> qsoid r \<notin> set (map qsoid (latest_rows rs))"
    using latest_rows_keys [of rs] by simp
  with Cons show ?case by simp
qed

text \<open>Appending a version replaces the key's entry among the latest rows.\<close>

lemma latest_rows_snoc:
  "latest_rows (xs @ [r]) = filter (\<lambda>x. qsoid x \<noteq> qsoid r) (latest_rows xs) @ [r]"
  by (induction xs) auto

lemma filter_key_distinct:
  "distinct (map qsoid xs) \<Longrightarrow>
     filter (qsoid_is (Some k)) xs = [] \<or>
     (\<exists>r. filter (qsoid_is (Some k)) xs = [r] \<and> qsoid r = k \<and> r \<in> set xs)"
proof (induction xs)
  case Nil
  show ?case by simp
next
  case (Cons x xs)
  show ?case
  proof (cases "qsoid x = k")
    case True
    with Cons.prems have "k \<notin> qsoid ` set xs" by simp
    then have "\<forall>y \<in> set xs. qsoid y \<noteq> k" by blast
    then have "filter (qsoid_is (Some k)) xs = []"
      by (simp add: filter_empty_conv qsoid_is_Some)
    with True show ?thesis by (simp add: qsoid_is_Some)
  next
    case False
    with Cons show ?thesis by (auto simp: qsoid_is_Some)
  qed
qed

lemma filter_key_latest:
  "filter (qsoid_is (Some k)) (latest_rows xs) = [] \<or>
   (\<exists>r. filter (qsoid_is (Some k)) (latest_rows xs) = [r] \<and> qsoid r = k \<and> r \<in> set xs)"
  using filter_key_distinct [OF latest_rows_distinct, of k xs] latest_rows_subset [of xs] by auto

lemma view_row:
  "filter (qsoid_is (Some k)) (qsos db) = [] \<or>
   (\<exists>r. filter (qsoid_is (Some k)) (qsos db) = [r] \<and> qsoid r = k)"
proof -
  have "distinct (map qsoid (qsos db))"
    unfolding qsos_def using latest_rows_distinct by (rule distinct_map_filter)
  from filter_key_distinct [OF this, of k] show ?thesis by auto
qed

section \<open>Known, present and deleted keys\<close>

lemma known_cases: "is_known k db = (is_present k db \<or> is_deleted k db)"
proof (cases k)
  case None
  then show ?thesis
    by (simp add: is_known_def is_present_def is_deleted_def filter_qsoid_is_None)
next
  case (Some n)
  have "is_known k db \<longleftrightarrow> n \<in> set (map qsoid (qsos_raw db))"
    by (auto simp: is_known_def Some filter_empty_conv qsoid_is_def)
  also have "\<dots> \<longleftrightarrow> n \<in> set (map qsoid (latest_rows (qsos_raw db)))"
    by (simp only: latest_rows_keys)
  also have "\<dots> \<longleftrightarrow> is_present k db \<or> is_deleted k db"
    by (auto simp: is_present_def is_deleted_def Some filter_empty_conv qsoid_is_def
        qsos_def deleted_qsos_def)
  finally show ?thesis .
qed

lemma present_not_deleted: "\<not> (is_present k db \<and> is_deleted k db)"
proof (cases k)
  case None
  then show ?thesis by (simp add: is_present_def filter_qsoid_is_None)
next
  case (Some n)
  from filter_key_latest [of n "qsos_raw db"] show ?thesis
  proof
    assume "filter (qsoid_is (Some n)) (latest_rows (qsos_raw db)) = []"
    then show ?thesis
      by (auto simp: is_present_def Some qsos_def filter_empty_conv)
  next
    assume "\<exists>r. filter (qsoid_is (Some n)) (latest_rows (qsos_raw db)) = [r] \<and>
                 qsoid r = n \<and> r \<in> set (qsos_raw db)"
    then obtain r where r: "filter (qsoid_is (Some n)) (latest_rows (qsos_raw db)) = [r]"
      by blast
    have p: "filter (qsoid_is (Some n)) (qsos db) = filter (\<lambda>r. \<not> is_null (content r)) [r]"
      unfolding qsos_def by (simp only: filter_filter conj_commute flip: r)
    have d: "filter (qsoid_is (Some n)) (deleted_qsos db) = filter (\<lambda>r. is_null (content r)) [r]"
      unfolding deleted_qsos_def by (simp only: filter_filter conj_commute flip: r)
    show ?thesis by (simp add: is_present_def is_deleted_def Some p d)
  qed
qed

lemma deleted_snoc:
  "is_deleted (Some k) (db\<lparr>qsos_raw := qsos_raw db @ [r]\<rparr>) =
     (if qsoid r = k then is_null (content r) else is_deleted (Some k) db)"
  by (auto simp: is_deleted_def deleted_qsos_def latest_rows_snoc qsoid_is_Some filter_empty_conv)

lemma present_snoc:
  "is_present (Some k) (db\<lparr>qsos_raw := qsos_raw db @ [r]\<rparr>) =
     (if qsoid r = k then \<not> is_null (content r) else is_present (Some k) db)"
  by (auto simp: is_present_def qsos_def latest_rows_snoc qsoid_is_Some filter_empty_conv) metis+

lemma null_contact_is_null: "is_null null_contact"
  by (simp add: is_null_def null_contact_def list_all_iff)

lemma has_fields_not_null: "has_call_and_timestamp r \<Longrightarrow> \<not> is_null (content r)"
  by (simp add: has_call_and_timestamp_def is_null_def)

section \<open>The store operations\<close>

lemma delete_present:
  "is_present (Some k) db \<Longrightarrow>
     delete_qso (Some k) db = db\<lparr>qsos_raw := qsos_raw db @ [\<lparr>qsoid = k, content = null_contact\<rparr>]\<rparr>"
  using view_row [of k db] by (auto simp: is_present_def delete_qso_def)

lemma delete_absent: "\<not> is_present k db \<Longrightarrow> delete_qso k db = db"
  by (simp add: is_present_def delete_qso_def)

lemma update_present:
  "is_present (Some k) db \<Longrightarrow>
     update_qso (Some k) c db = db\<lparr>qsos_raw := qsos_raw db @ [\<lparr>qsoid = k, content = c\<rparr>]\<rparr>"
  using view_row [of k db] by (auto simp: is_present_def update_qso_def)

lemma update_absent: "\<not> is_present k db \<Longrightarrow> update_qso k c db = db"
  by (simp add: is_present_def update_qso_def)

lemma view_after_update:
  "is_present (Some k) db \<Longrightarrow> \<not> is_null c \<Longrightarrow>
     filter (qsoid_is (Some k)) (qsos (update_qso (Some k) c db)) = [\<lparr>qsoid = k, content = c\<rparr>]"
  by (auto simp: update_present qsos_def latest_rows_snoc qsoid_is_Some filter_empty_conv)

lemma undo_source_None: "undo_source None db = []"
  by (simp add: undo_source_def filter_qsoid_is_None)

lemma undo_source_cases:
  "undo_source (Some k) db = [] \<or>
   (\<exists>r. undo_source (Some k) db = [r] \<and> qsoid r = k \<and> has_call_and_timestamp r \<and>
        r \<in> set (qsos_raw db))"
  using filter_key_latest [of k "filter has_call_and_timestamp (qsos_raw db)"]
  by (auto simp: undo_source_def)

lemma undo_source_live: "live_versions k db = [] \<Longrightarrow> undo_source k db = []"
proof (cases k)
  case None
  then show ?thesis by (simp add: undo_source_None)
next
  case (Some n)
  assume live: "live_versions k db = []"
  from undo_source_cases [of n db] show ?thesis
  proof
    assume "undo_source (Some n) db = []"
    then show ?thesis by (simp add: Some)
  next
    assume "\<exists>r. undo_source (Some n) db = [r] \<and> qsoid r = n \<and> has_call_and_timestamp r \<and>
                 r \<in> set (qsos_raw db)"
    then obtain r where "qsoid r = n" "has_call_and_timestamp r" "r \<in> set (qsos_raw db)"
      by blast
    with live have False
      by (auto simp: live_versions_def filter_empty_conv Some qsoid_is_Some
          dest: has_fields_not_null)
    then show ?thesis ..
  qed
qed

lemma undo_delete_twice: "undo_delete k (undo_delete k db) = undo_delete k db"
proof (cases k)
  case None
  then show ?thesis by (simp add: undo_delete_def undo_source_None)
next
  case (Some n)
  show ?thesis
  proof (cases "is_deleted k db")
    case False
    then show ?thesis by (simp add: undo_delete_def)
  next
    case True
    from undo_source_cases [of n db] show ?thesis
    proof
      assume "undo_source (Some n) db = []"
      then show ?thesis by (simp add: undo_delete_def Some)
    next
      assume "\<exists>r. undo_source (Some n) db = [r] \<and> qsoid r = n \<and> has_call_and_timestamp r \<and>
                   r \<in> set (qsos_raw db)"
      then obtain r where r: "undo_source (Some n) db = [r]" "qsoid r = n"
          "has_call_and_timestamp r"
        by blast
      have step: "undo_delete k db = db\<lparr>qsos_raw := qsos_raw db @ [r]\<rparr>"
        using True r(1) by (simp add: undo_delete_def Some)
      have "\<not> is_deleted k (db\<lparr>qsos_raw := qsos_raw db @ [r]\<rparr>)"
        using r(2,3) by (simp add: Some deleted_snoc has_fields_not_null)
      then show ?thesis
        unfolding step by (simp add: undo_delete_def)
    qed
  qed
qed

section \<open>The handler\<close>

lemmas handler_calls =
  call_insert_qso_def call_update_qso_def call_delete_qso_def call_undo_delete_def
  call_get_qso_id_def modify_qso_def

text \<open>
  Once \<open>last_deleted_contact\<close> holds a dictionary, the subscript at the head of the
  contactreplace branch succeeds, and no message ends in \<open>TypeError\<close>. Errors of the
  database layer are not part of the model.
\<close>

lemma handle_message_returns:
  "last_deleted_contact h \<noteq> None \<Longrightarrow> fst (handle_message msg h) = None"
  by (auto simp: handle_message_def Let_def split_def split: option.splits)

lemma handle_message_keeps_last_deleted:
  "last_deleted_contact h \<noteq> None \<Longrightarrow> last_deleted_contact (snd (handle_message msg h)) \<noteq> None"
  by (auto simp: handle_message_def handler_calls say_def Let_def split: option.splits)

section \<open>The claims about the handler\<close>

text \<open>
  C1. A contactreplace arrives while the stored \<open>qsoid\<close> of the last deleted contact is
  \<open>None\<close>, and the lookup by the message's own timestamp and call finds nothing. Then the
  handler makes exactly two further lookups, first by the message's timestamp with the
  deleted contact's call, then by the deleted contact's timestamp with the message's
  call, and goes on with the first of the two results that is not \<open>None\<close>: the first
  lookup wins whenever it finds a key, also when the second finds one too. With a key the
  record is updated; with none the message is dropped.
\<close>

theorem replace_cross_match:
  assumes "msg_root msg = ''contactreplace''"
    and "last_deleted_contact h = Some d"
    and "dc_qsoid d = None"
    and "get_qso_id (timestamp (body msg)) (call (body msg)) (qso_db h) = None"
  shows "handle_message msg h =
    (let c1 = get_qso_id (timestamp (body msg)) (call (dc_contact d)) (qso_db h);
         c2 = get_qso_id (timestamp (dc_contact d)) (call (body msg)) (qso_db h);
         lookups = [Get_qso_id (timestamp (body msg)) (call (body msg)),
                    Get_qso_id (timestamp (body msg)) (call (dc_contact d)),
                    Get_qso_id (timestamp (dc_contact d)) (call (body msg))];
         chosen = (if c1 \<noteq> None then c1 else c2)
     in if chosen = None
        then (None,
              say [''Gave up, not able to find matching QSO record for contactreplace: '',
                   contact_to_short_string (body msg)]
                (h\<lparr>db_calls := db_calls h @ lookups\<rparr>))
        else (None,
              say [''Replaced '', contact_to_short_string (body msg), ''at qsoid = '',
                   str_id chosen]
                (h\<lparr>qso_db := update_qso chosen (body msg) (qso_db h),
                   db_calls := db_calls h @ lookups @ [Update_qso chosen (body msg)]\<rparr>)))"
  using assms by (auto simp add: handle_message_def handler_calls Let_def)

text \<open>
  C1, at an input where both cross-matched lookups find a key: contacts 1 and 2 are
  stored, the contactdelete carried the time of contact 2 with the call of contact 1, and
  the contactreplace carries the time of contact 1 with the call of contact 2. Key 1, found
  by the message's timestamp, is the one that is updated.
\<close>

theorem replace_cross_match_witness:
  "get_qso_id (timestamp contact_ab) (call contact_ba) two_qsos = Some 1 \<and>
   get_qso_id (timestamp contact_ba) (call contact_ab) two_qsos = Some 2 \<and>
   db_calls (snd (handle_message \<lparr>msg_root = ''contactreplace'', body = contact_ab\<rparr>
                    (handler_after_delete contact_ba None two_qsos))) =
     [Get_qso_id (timestamp contact_ab) (call contact_ab),
      Get_qso_id (timestamp contact_ab) (call contact_ba),
      Get_qso_id (timestamp contact_ba) (call contact_ab),
      Update_qso (Some 1) contact_ab] \<and>
   qsos_raw (qso_db (snd (handle_message \<lparr>msg_root = ''contactreplace'', body = contact_ab\<rparr>
                            (handler_after_delete contact_ba None two_qsos)))) =
     [\<lparr>qsoid = 1, content = contact_a\<rparr>, \<lparr>qsoid = 2, content = contact_b\<rparr>,
      \<lparr>qsoid = 1, content = contact_ab\<rparr>]"
proof -
  let ?msg = "\<lparr>msg_root = ''contactreplace'', body = contact_ab\<rparr>"
  let ?h = "handler_after_delete contact_ba None two_qsos"
  let ?d = "\<lparr>dc_contact = contact_ba, dc_qsoid = None\<rparr>"
  have own: "get_qso_id (timestamp contact_ab) (call contact_ab) two_qsos = None"
    by code_simp
  have c1: "get_qso_id (timestamp contact_ab) (call contact_ba) two_qsos = Some 1"
    by code_simp
  have c2: "get_qso_id (timestamp contact_ba) (call contact_ab) two_qsos = Some 2"
    by code_simp
  have upd: "qsos_raw (update_qso (Some 1) contact_ab two_qsos) =
     [\<lparr>qsoid = 1, content = contact_a\<rparr>, \<lparr>qsoid = 2, content = contact_b\<rparr>,
      \<lparr>qsoid = 1, content = contact_ab\<rparr>]"
    by code_simp
  have run: "handle_message ?msg ?h =
      (None,
       say [''Replaced '', contact_to_short_string contact_ab, ''at qsoid = '', str_id (Some 1)]
         (?h\<lparr>qso_db := update_qso (Some 1) contact_ab two_qsos,
             db_calls := [Get_qso_id (timestamp contact_ab) (call contact_ab),
                          Get_qso_id (timestamp contact_ab) (call contact_ba),
                          Get_qso_id (timestamp contact_ba) (call contact_ab),
                          Update_qso (Some 1) contact_ab]\<rparr>))"
    using replace_cross_match [of ?msg ?h ?d]
    by (simp add: handler_after_delete_def n1mm_handler_init_def own c1 c2 Let_def)
  show ?thesis
    unfolding run
    by (simp add: c1 c2 upd say_def handler_after_delete_def n1mm_handler_init_def
        del: One_nat_def print_args.simps)
qed

text \<open>
  C2. A contactreplace arrives while the last deleted contact carries a \<open>qsoid\<close>. The
  handler takes that key and asks the database nothing: it calls \<open>undo_delete\<close> and then
  \<open>update_qso\<close> with the key and the message's contact, these two calls and no other,
  and reports the replacement at that key.
\<close>

theorem replace_with_stored_key:
  assumes "msg_root msg = ''contactreplace''"
    and "last_deleted_contact h = Some d"
    and "dc_qsoid d = Some k"
  shows "handle_message msg h =
    (None,
     say [''Replaced '', contact_to_short_string (body msg), ''at qsoid = '', str_id (Some k)]
       (h\<lparr>qso_db := update_qso (Some k) (body msg) (undo_delete (Some k) (qso_db h)),
          db_calls := db_calls h @ [Undo_delete (Some k), Update_qso (Some k) (body msg)]\<rparr>))"
  using assms by (simp add: handle_message_def handler_calls Let_def)

text \<open>
  C2, at the scenario of the specification: contact 1 was deleted by its own fields, and
  the contactreplace changes its call sign. The history of key 1 then holds the insert,
  the tombstone, the revived copy and the replacement.
\<close>

theorem replace_with_stored_key_witness:
  "db_calls (snd (handle_message \<lparr>msg_root = ''contactreplace'', body = contact_ab\<rparr>
                    (handler_after_delete contact_a (Some 1) deleted_qso))) =
     [Undo_delete (Some 1), Update_qso (Some 1) contact_ab] \<and>
   qsos_raw (qso_db (snd (handle_message \<lparr>msg_root = ''contactreplace'', body = contact_ab\<rparr>
                            (handler_after_delete contact_a (Some 1) deleted_qso)))) =
     [\<lparr>qsoid = 1, content = contact_a\<rparr>, \<lparr>qsoid = 1, content = null_contact\<rparr>,
      \<lparr>qsoid = 1, content = contact_a\<rparr>, \<lparr>qsoid = 1, content = contact_ab\<rparr>] \<and>
   stdout (snd (handle_message \<lparr>msg_root = ''contactreplace'', body = contact_ab\<rparr>
                  (handler_after_delete contact_a (Some 1) deleted_qso))) =
     [''Replaced  2019-08-10 13:30:00 EF2GH at qsoid =  1'']"
proof -
  let ?msg = "\<lparr>msg_root = ''contactreplace'', body = contact_ab\<rparr>"
  let ?h = "handler_after_delete contact_a (Some 1) deleted_qso"
  let ?d = "\<lparr>dc_contact = contact_a, dc_qsoid = Some 1\<rparr>"
  have store: "qsos_raw (update_qso (Some 1) contact_ab (undo_delete (Some 1) deleted_qso)) =
     [\<lparr>qsoid = 1, content = contact_a\<rparr>, \<lparr>qsoid = 1, content = null_contact\<rparr>,
      \<lparr>qsoid = 1, content = contact_a\<rparr>, \<lparr>qsoid = 1, content = contact_ab\<rparr>]"
    by code_simp
  have line: "print_args [''Replaced '', contact_to_short_string contact_ab, ''at qsoid = '',
                          str_id (Some 1)] =
     ''Replaced  2019-08-10 13:30:00 EF2GH at qsoid =  1''"
    by code_simp
  have run: "handle_message ?msg ?h =
      (None,
       say [''Replaced '', contact_to_short_string contact_ab, ''at qsoid = '', str_id (Some 1)]
         (?h\<lparr>qso_db := update_qso (Some 1) contact_ab (undo_delete (Some 1) deleted_qso),
             db_calls := [Undo_delete (Some 1), Update_qso (Some 1) contact_ab]\<rparr>))"
    using replace_with_stored_key [of ?msg ?h ?d 1]
    by (simp add: handler_after_delete_def n1mm_handler_init_def)
  show ?thesis
    unfolding run
    by (simp add: store line say_def handler_after_delete_def n1mm_handler_init_def
        del: One_nat_def print_args.simps)
qed

text \<open>
  C3. A contactreplace arrives while the stored \<open>qsoid\<close> of the last deleted contact is
  \<open>None\<close>, and the lookup by the message's own fields and both cross-matched lookups
  find nothing. Then the handler gives up: it returns after the three lookups, reports
  that it gave up (the line is printed when the handler is verbose), and the database is
  the one it was before, so no version has been appended for any key.
\<close>

theorem replace_gives_up:
  assumes "msg_root msg = ''contactreplace''"
    and "last_deleted_contact h = Some d"
    and "dc_qsoid d = None"
    and "get_qso_id (timestamp (body msg)) (call (body msg)) (qso_db h) = None"
    and "get_qso_id (timestamp (body msg)) (call (dc_contact d)) (qso_db h) = None"
    and "get_qso_id (timestamp (dc_contact d)) (call (body msg)) (qso_db h) = None"
  shows "handle_message msg h =
      (None,
       say [''Gave up, not able to find matching QSO record for contactreplace: '',
            contact_to_short_string (body msg)]
         (h\<lparr>db_calls := db_calls h @
               [Get_qso_id (timestamp (body msg)) (call (body msg)),
                Get_qso_id (timestamp (body msg)) (call (dc_contact d)),
                Get_qso_id (timestamp (dc_contact d)) (call (body msg))]\<rparr>)) \<and>
    qso_db (snd (handle_message msg h)) = qso_db h"
  using assms by (simp add: handle_message_def handler_calls say_def Let_def)

text \<open>
  C3, at an input: two contacts are stored, the contactdelete was the degenerate one
  (epoch, no call), and the contactreplace shares no field with a stored contact.
\<close>

theorem replace_gives_up_witness:
  "qso_db (snd (handle_message \<lparr>msg_root = ''contactreplace'', body = contact_z\<rparr>
                  (handler_after_delete contact_epoch None two_qsos))) = two_qsos \<and>
   stdout (snd (handle_message \<lparr>msg_root = ''contactreplace'', body = contact_z\<rparr>
                  (handler_after_delete contact_epoch None two_qsos))) =
     [''Gave up, not able to find matching QSO record for contactreplace:  2019-08-11 09:00:00 ZZ9ZZ'']"
proof -
  let ?msg = "\<lparr>msg_root = ''contactreplace'', body = contact_z\<rparr>"
  let ?h = "handler_after_delete contact_epoch None two_qsos"
  let ?d = "\<lparr>dc_contact = contact_epoch, dc_qsoid = None\<rparr>"
  have own: "get_qso_id (timestamp contact_z) (call contact_z) two_qsos = None"
    by code_simp
  have c1: "get_qso_id (timestamp contact_z) (call contact_epoch) two_qsos = None"
    by code_simp
  have c2: "get_qso_id (timestamp contact_epoch) (call contact_z) two_qsos = None"
    by code_simp
  have line: "print_args [''Gave up, not able to find matching QSO record for contactreplace: '',
                          contact_to_short_string contact_z] =
     ''Gave up, not able to find matching QSO record for contactreplace:  2019-08-11 09:00:00 ZZ9ZZ''"
    by code_simp
  have run: "handle_message ?msg ?h =
      (None,
       say [''Gave up, not able to find matching QSO record for contactreplace: '',
            contact_to_short_string contact_z]
         (?h\<lparr>db_calls := [Get_qso_id (timestamp contact_z) (call contact_z),
                          Get_qso_id (timestamp contact_z) (call contact_epoch),
                          Get_qso_id (timestamp contact_epoch) (call contact_z)]\<rparr>))"
    using replace_gives_up [of ?msg ?h ?d]
    by (simp add: handler_after_delete_def n1mm_handler_init_def own c1 c2 Let_def)
  show ?thesis
    unfolding run
    by (simp add: line say_def handler_after_delete_def n1mm_handler_init_def
        del: One_nat_def print_args.simps)
qed

text \<open>
  C7. Only a contactdelete writes \<open>last_deleted_contact\<close>: after it the attribute holds
  the message's contact together with the \<open>qsoid\<close> that the lookup by its timestamp and
  call returned, which is \<open>None\<close> when nothing matched. Every other message, a
  contactinfo or a contactreplace among them, leaves the attribute as it was.
\<close>

theorem last_deleted_contact_written_by_delete_only:
  "(msg_root msg = ''contactdelete'' \<longrightarrow>
      last_deleted_contact (snd (handle_message msg h)) =
        Some \<lparr>dc_contact = body msg,
              dc_qsoid = get_qso_id (timestamp (body msg)) (call (body msg)) (qso_db h)\<rparr>) \<and>
   (msg_root msg = ''contactinfo'' \<or> msg_root msg = ''contactreplace'' \<longrightarrow>
      last_deleted_contact (snd (handle_message msg h)) = last_deleted_contact h)"
  by (auto simp add: handle_message_def handler_calls say_def Let_def split: option.splits)

text \<open>
  C7, at inputs: a contactdelete of the stored contact 1, a degenerate contactdelete that
  resolves to no key, then a contactinfo and a contactreplace handled after a delete.
\<close>

theorem last_deleted_contact_written_by_delete_only_witness:
  "last_deleted_contact (snd (handle_message \<lparr>msg_root = ''contactdelete'', body = contact_a\<rparr>
                                (n1mm_handler_init two_qsos False))) =
     Some \<lparr>dc_contact = contact_a, dc_qsoid = Some 1\<rparr> \<and>
   last_deleted_contact (snd (handle_message \<lparr>msg_root = ''contactdelete'', body = contact_epoch\<rparr>
                                (handler_after_delete contact_a (Some 1) two_qsos))) =
     Some \<lparr>dc_contact = contact_epoch, dc_qsoid = None\<rparr> \<and>
   last_deleted_contact (snd (handle_message \<lparr>msg_root = ''contactinfo'', body = contact_z\<rparr>
                                (handler_after_delete contact_a (Some 1) deleted_qso))) =
     Some \<lparr>dc_contact = contact_a, dc_qsoid = Some 1\<rparr> \<and>
   last_deleted_contact (snd (handle_message \<lparr>msg_root = ''contactreplace'', body = contact_ab\<rparr>
                                (handler_after_delete contact_a (Some 1) deleted_qso))) =
     Some \<lparr>dc_contact = contact_a, dc_qsoid = Some 1\<rparr>"
proof -
  have k1: "get_qso_id (timestamp contact_a) (call contact_a) two_qsos = Some 1"
    by code_simp
  have k2: "get_qso_id (timestamp contact_epoch) (call contact_epoch) two_qsos = None"
    by code_simp
  show ?thesis
    using
      last_deleted_contact_written_by_delete_only
        [of "\<lparr>msg_root = ''contactdelete'', body = contact_a\<rparr>" "n1mm_handler_init two_qsos False"]
      last_deleted_contact_written_by_delete_only
        [of "\<lparr>msg_root = ''contactdelete'', body = contact_epoch\<rparr>"
            "handler_after_delete contact_a (Some 1) two_qsos"]
      last_deleted_contact_written_by_delete_only
        [of "\<lparr>msg_root = ''contactinfo'', body = contact_z\<rparr>"
            "handler_after_delete contact_a (Some 1) deleted_qso"]
      last_deleted_contact_written_by_delete_only
        [of "\<lparr>msg_root = ''contactreplace'', body = contact_ab\<rparr>"
            "handler_after_delete contact_a (Some 1) deleted_qso"]
    by (simp add: k1 k2 handler_after_delete_def n1mm_handler_init_def del: One_nat_def)
qed

text \<open>
  C8. The claim is that no message makes the handler raise. A freshly made handler has
  \<open>last_deleted_contact = None\<close>, and a contactreplace as its first message subscripts
  it: the call ends with \<open>TypeError\<close>, before any database call, and nothing is printed.
\<close>

theorem first_replace_raises:
  "handle_message \<lparr>msg_root = ''contactreplace'', body = contact_ab\<rparr>
     (n1mm_handler_init two_qsos True) =
   (Some TypeError, n1mm_handler_init two_qsos True)"
  by (simp add: handle_message_def n1mm_handler_init_def)

text \<open>
  C10. A message whose root element is none of contactinfo, contactdelete and
  contactreplace is handled without error and without effect: no database call is made,
  nothing is printed, and the database and \<open>last_deleted_contact\<close> stay as they were.
\<close>

theorem other_message_ignored:
  assumes "msg_root msg \<noteq> ''contactinfo''"
    and "msg_root msg \<noteq> ''contactdelete''"
    and "msg_root msg \<noteq> ''contactreplace''"
  shows "handle_message msg h = (None, h)"
  using assms by (simp add: handle_message_def Let_def)

text \<open>C10, at an input: a RadioInfo broadcast.\<close>

theorem other_message_ignored_witness:
  "handle_message \<lparr>msg_root = ''RadioInfo'', body = contact_epoch\<rparr>
     (handler_after_delete contact_a (Some 1) deleted_qso) =
   (None, handler_after_delete contact_a (Some 1) deleted_qso)"
  using other_message_ignored
    [of "\<lparr>msg_root = ''RadioInfo'', body = contact_epoch\<rparr>"
        "handler_after_delete contact_a (Some 1) deleted_qso"]
  by simp

section \<open>The claims about the store\<close>

text \<open>
  C4. \<open>undo_delete\<close> is idempotent. For a key that is not in \<open>deleted_qsos\<close> (its most
  recent version is not a tombstone, or it has no version at all) the call leaves the
  database as it is; and after \<open>delete_qso\<close>, calling \<open>undo_delete\<close> twice gives the same
  database as calling it once.
\<close>

theorem undo_delete_idempotent:
  "(\<not> is_deleted k db \<longrightarrow> undo_delete k db = db) \<and>
   undo_delete k (undo_delete k (delete_qso k db)) = undo_delete k (delete_qso k db)"
  by (simp add: undo_delete_twice) (simp add: undo_delete_def)

text \<open>
  C4, at inputs: key 1 of the store of two contacts is not deleted and \<open>undo_delete\<close>
  changes nothing; after its deletion one call appends the revived copy, and a second
  call appends nothing more.
\<close>

theorem undo_delete_idempotent_witness:
  "\<not> is_deleted (Some 1) two_qsos \<and>
   undo_delete (Some 1) two_qsos = two_qsos \<and>
   qsos_raw (undo_delete (Some 1) (undo_delete (Some 1) (delete_qso (Some 1) two_qsos))) =
     [\<lparr>qsoid = 1, content = contact_a\<rparr>, \<lparr>qsoid = 2, content = contact_b\<rparr>,
      \<lparr>qsoid = 1, content = null_contact\<rparr>, \<lparr>qsoid = 1, content = contact_a\<rparr>]"
proof -
  have live: "\<not> is_deleted (Some 1) two_qsos"
    by code_simp
  have once: "qsos_raw (undo_delete (Some 1) (delete_qso (Some 1) two_qsos)) =
     [\<lparr>qsoid = 1, content = contact_a\<rparr>, \<lparr>qsoid = 2, content = contact_b\<rparr>,
      \<lparr>qsoid = 1, content = null_contact\<rparr>, \<lparr>qsoid = 1, content = contact_a\<rparr>]"
    by code_simp
  from undo_delete_idempotent [of "Some 1" two_qsos] live once show ?thesis
    by (simp del: One_nat_def)
qed

text \<open>
  C5, as the claim states it, fails. The key 1 of this store is in \<open>deleted_qsos\<close> and its
  history holds no version that is not a tombstone; \<open>undo_delete\<close> returns with the
  database unchanged, and a contactreplace that leads to this call is handled without an
  exception and reported as a replacement.
\<close>

theorem undo_delete_corrupt_history_counterexample:
  "is_deleted (Some 1) lone_tombstone \<and>
   live_versions (Some 1) lone_tombstone = [] \<and>
   undo_delete (Some 1) lone_tombstone = lone_tombstone \<and>
   fst (handle_message \<lparr>msg_root = ''contactreplace'', body = contact_a\<rparr>
          (handler_after_delete contact_epoch (Some 1) lone_tombstone)) = None \<and>
   stdout (snd (handle_message \<lparr>msg_root = ''contactreplace'', body = contact_a\<rparr>
                  (handler_after_delete contact_epoch (Some 1) lone_tombstone))) =
     [''Replaced  2019-08-10 13:30:00 AB1CD at qsoid =  1'']"
  by code_simp

text \<open>
  C5, amended. For a key in \<open>deleted_qsos\<close> whose history holds no version that is not a
  tombstone, \<open>undo_delete\<close> completes and leaves the database unchanged: the query finds
  no row to copy, and nothing is signalled.
\<close>

theorem undo_delete_without_live_version:
  assumes "is_deleted k db"
    and "live_versions k db = []"
  shows "undo_delete k db = db"
  using assms by (simp add: undo_delete_def undo_source_live)

text \<open>C5 amended, at the store whose only row is a tombstone.\<close>

theorem undo_delete_without_live_version_witness:
  "qsos_raw (undo_delete (Some 1) lone_tombstone) = [\<lparr>qsoid = 1, content = null_contact\<rparr>]"
proof -
  have d: "is_deleted (Some 1) lone_tombstone"
    by code_simp
  have l: "live_versions (Some 1) lone_tombstone = []"
    by code_simp
  show ?thesis
    unfolding undo_delete_without_live_version [OF d l] by (simp add: lone_tombstone_def)
qed

text \<open>
  C6, as the claim states it, fails. Contact 1 of this store has been deleted; the key is
  known, but \<open>update_qso\<close> on it appends nothing and the key is not present afterwards.
\<close>

theorem update_deleted_counterexample:
  "is_known (Some 1) deleted_qso \<and>
   is_deleted (Some 1) deleted_qso \<and>
   update_qso (Some 1) contact_ab deleted_qso = deleted_qso \<and>
   \<not> is_present (Some 1) (update_qso (Some 1) contact_ab deleted_qso)"
  by code_simp

text \<open>
  C6, amended. For a key that is present in the Current View, \<open>update_qso\<close> appends one
  version with the given payload, and when the payload is not entirely NULL that version
  is the key's row in the Current View. For a key whose most recent version is a
  tombstone, \<open>update_qso\<close> appends nothing and the database is unchanged: the UPDATE
  ranges over the view, where the key has no row.
\<close>

theorem update_qso_on_view:
  "(is_present (Some k) db \<longrightarrow>
      update_qso (Some k) c db =
        db\<lparr>qsos_raw := qsos_raw db @ [\<lparr>qsoid = k, content = c\<rparr>]\<rparr> \<and>
      (\<not> is_null c \<longrightarrow>
         filter (qsoid_is (Some k)) (qsos (update_qso (Some k) c db)) =
           [\<lparr>qsoid = k, content = c\<rparr>])) \<and>
   (is_deleted (Some k) db \<longrightarrow> update_qso (Some k) c db = db)"
proof (intro conjI impI)
  assume "is_present (Some k) db"
  then show "update_qso (Some k) c db = db\<lparr>qsos_raw := qsos_raw db @ [\<lparr>qsoid = k, content = c\<rparr>]\<rparr>"
    by (rule update_present)
next
  assume "is_present (Some k) db" and "\<not> is_null c"
  then show "filter (qsoid_is (Some k)) (qsos (update_qso (Some k) c db)) =
      [\<lparr>qsoid = k, content = c\<rparr>]"
    by (rule view_after_update)
next
  assume "is_deleted (Some k) db"
  with present_not_deleted [of "Some k" db] have "\<not> is_present (Some k) db"
    by blast
  then show "update_qso (Some k) c db = db"
    by (rule update_absent)
qed

text \<open>
  C6 amended, at inputs: the present key 1 of the store of two contacts, and the deleted
  key 1 of the other store.
\<close>

theorem update_qso_on_view_witness:
  "qsos_raw (update_qso (Some 1) contact_ab two_qsos) =
     [\<lparr>qsoid = 1, content = contact_a\<rparr>, \<lparr>qsoid = 2, content = contact_b\<rparr>,
      \<lparr>qsoid = 1, content = contact_ab\<rparr>] \<and>
   filter (qsoid_is (Some 1)) (qsos (update_qso (Some 1) contact_ab two_qsos)) =
     [\<lparr>qsoid = 1, content = contact_ab\<rparr>] \<and>
   update_qso (Some 1) contact_ab deleted_qso = deleted_qso"
proof -
  have p: "is_present (Some 1) two_qsos"
    by code_simp
  have n: "\<not> is_null contact_ab"
    by code_simp
  have d: "is_deleted (Some 1) deleted_qso"
    by code_simp
  from update_qso_on_view [of 1 two_qsos contact_ab] p n
  have a: "update_qso (Some 1) contact_ab two_qsos =
        two_qsos\<lparr>qsos_raw := qsos_raw two_qsos @ [\<lparr>qsoid = 1, content = contact_ab\<rparr>]\<rparr>"
    and b: "filter (qsoid_is (Some 1)) (qsos (update_qso (Some 1) contact_ab two_qsos)) =
        [\<lparr>qsoid = 1, content = contact_ab\<rparr>]"
    by blast+
  from update_qso_on_view [of 1 deleted_qso contact_ab] d
  have c: "update_qso (Some 1) contact_ab deleted_qso = deleted_qso"
    by blast
  have a': "qsos_raw (update_qso (Some 1) contact_ab two_qsos) =
     [\<lparr>qsoid = 1, content = contact_a\<rparr>, \<lparr>qsoid = 2, content = contact_b\<rparr>,
      \<lparr>qsoid = 1, content = contact_ab\<rparr>]"
    unfolding a by (simp add: two_qsos_def)
  from a' b c show ?thesis
    by blast
qed

text \<open>
  C9, as the claim states it, fails. Key 7 is unknown to this store; \<open>delete_qso\<close> on it
  returns with the database unchanged, and the contactdelete of a contact that is not
  stored is handled without an exception and reported as a deletion at \<open>None\<close>.
\<close>

theorem delete_unknown_counterexample:
  "\<not> is_known (Some 7) two_qsos \<and>
   delete_qso (Some 7) two_qsos = two_qsos \<and>
   handle_message \<lparr>msg_root = ''contactdelete'', body = contact_z\<rparr>
     (n1mm_handler_init two_qsos True) =
   (None,
    \<lparr>last_deleted_contact = Some \<lparr>dc_contact = contact_z, dc_qsoid = None\<rparr>,
     qso_db = two_qsos, verbose = True,
     db_calls = [Get_qso_id (timestamp contact_z) (call contact_z), Delete_qso None],
     stdout = [''Deleted  2019-08-11 09:00:00 ZZ9ZZ  at qsoid =  None'']\<rparr>)"
  by code_simp

text \<open>
  C9, amended. For a key that is unknown to the store or whose most recent version is a
  tombstone, \<open>delete_qso\<close> appends nothing and completes; nothing is signalled. For a key
  that is present it appends exactly one version, a tombstone, and the key is in
  \<open>deleted_qsos\<close> afterwards.
\<close>

theorem delete_qso_on_view:
  "(\<not> is_known k db \<or> is_deleted k db \<longrightarrow> delete_qso k db = db) \<and>
   (is_present (Some n) db \<longrightarrow>
      delete_qso (Some n) db =
        db\<lparr>qsos_raw := qsos_raw db @ [\<lparr>qsoid = n, content = null_contact\<rparr>]\<rparr> \<and>
      is_deleted (Some n) (delete_qso (Some n) db))"
proof (intro conjI impI)
  assume "\<not> is_known k db \<or> is_deleted k db"
  with known_cases [of k db] present_not_deleted [of k db] have "\<not> is_present k db"
    by blast
  then show "delete_qso k db = db"
    by (rule delete_absent)
next
  assume "is_present (Some n) db"
  then show "delete_qso (Some n) db =
      db\<lparr>qsos_raw := qsos_raw db @ [\<lparr>qsoid = n, content = null_contact\<rparr>]\<rparr>"
    by (rule delete_present)
next
  assume "is_present (Some n) db"
  then show "is_deleted (Some n) (delete_qso (Some n) db)"
    by (simp add: delete_present deleted_snoc null_contact_is_null)
qed

text \<open>
  C9 amended, at inputs: the unknown key 7 and the present key 1 of the store of two
  contacts, and the deleted key 1 of the other store.
\<close>

theorem delete_qso_on_view_witness:
  "delete_qso (Some 7) two_qsos = two_qsos \<and>
   delete_qso (Some 1) deleted_qso = deleted_qso \<and>
   qsos_raw (delete_qso (Some 1) two_qsos) =
     [\<lparr>qsoid = 1, content = contact_a\<rparr>, \<lparr>qsoid = 2, content = contact_b\<rparr>,
      \<lparr>qsoid = 1, content = null_contact\<rparr>] \<and>
   is_deleted (Some 1) (delete_qso (Some 1) two_qsos)"
proof -
  have u: "\<not> is_known (Some 7) two_qsos"
    by code_simp
  have d: "is_deleted (Some 1) deleted_qso"
    by code_simp
  have p: "is_present (Some 1) two_qsos"
    by code_simp
  from delete_qso_on_view [of "Some 7" two_qsos 1] u p
  have a: "delete_qso (Some 7) two_qsos = two_qsos"
    and b: "delete_qso (Some 1) two_qsos =
        two_qsos\<lparr>qsos_raw := qsos_raw two_qsos @ [\<lparr>qsoid = 1, content = null_contact\<rparr>]\<rparr>"
    and c: "is_deleted (Some 1) (delete_qso (Some 1) two_qsos)"
    by blast+
  from delete_qso_on_view [of "Some 1" deleted_qso 1] d
  have e: "delete_qso (Some 1) deleted_qso = deleted_qso"
    by blast
  have b': "qsos_raw (delete_qso (Some 1) two_qsos) =
     [\<lparr>qsoid = 1, content = contact_a\<rparr>, \<lparr>qsoid = 2, content = contact_b\<rparr>,
      \<lparr>qsoid = 1, content = null_contact\<rparr>]"
    unfolding b by (simp add: two_qsos_def)
  from a e b' c show ?thesis
    by blast
qed

end
